theory Spec2Isabelle
  imports Main
begin

section \<open>The ReAct chat engine of \<^verbatim>\<open>llama_index/chat_engine/react.py\<close>\<close>

text \<open>
  The engine is configuration glue around an agent of the LangChain framework. The
  embedding keeps the Python's structure: exceptions are values of a sum type, objects
  that are shared by reference (the conversation memory, the agent executor) live in an
  explicit store, and every method takes the store and returns the new one.
\<close>

subsection \<open>Exceptions\<close>

datatype error =
    ValueError string
  | NotImplementedError string
  | AssertionError
  | OtherException string

subsection \<open>Messages and their translation\<close>

datatype MessageRole = SYSTEM | USER | ASSISTANT | FUNCTION

record ChatMessage =
  role :: MessageRole
  content :: string

text \<open>
  Modelled from the spec: the message type of the external framework and the two
  translation functions \<^verbatim>\<open>to_lc_messages\<close> and \<^verbatim>\<open>from_lc_messages\<close> of
  \<^verbatim>\<open>llama_index/llms/langchain_utils.py\<close>, which is not among the source files. The
  spec calls them "a translation layer between this library's message/tool/memory types
  and the external framework's equivalent types" that works "without loss of role or
  content": the external message is a variant per role that carries the content.
\<close>

datatype LCMessage =
    SystemMessage string
  | HumanMessage string
  | AIMessage string
  | FunctionMessage string

fun to_lc_message :: "ChatMessage \<Rightarrow> LCMessage" where
  "to_lc_message msg =
     (case role msg of
        USER \<Rightarrow> HumanMessage (content msg)
      | ASSISTANT \<Rightarrow> AIMessage (content msg)
      | FUNCTION \<Rightarrow> FunctionMessage (content msg)
      | SYSTEM \<Rightarrow> SystemMessage (content msg))"

fun from_lc_message :: "LCMessage \<Rightarrow> ChatMessage" where
  "from_lc_message (HumanMessage c) = \<lparr>role = USER, content = c\<rparr>"
| "from_lc_message (AIMessage c) = \<lparr>role = ASSISTANT, content = c\<rparr>"
| "from_lc_message (FunctionMessage c) = \<lparr>role = FUNCTION, content = c\<rparr>"
| "from_lc_message (SystemMessage c) = \<lparr>role = SYSTEM, content = c\<rparr>"

definition to_lc_messages :: "ChatMessage list \<Rightarrow> LCMessage list" where
  "to_lc_messages messages = map to_lc_message messages"

definition from_lc_messages :: "LCMessage list \<Rightarrow> ChatMessage list" where
  "from_lc_messages lc_messages = map from_lc_message lc_messages"

subsection \<open>Language models, predictors and the service context\<close>

text \<open>
  Modelled from the spec: \<^verbatim>\<open>is_chat_model\<close> of the same absent file. The spec
  describes "the necessary interface abstraction over chat-capable vs completion-capable
  language-model backends, which maps directly to a tagged-variant": a LangChain language
  model is one of the two variants, named by its model identifier.
\<close>

datatype LCLanguageModel = BaseChatModel string | BaseLLM string

fun is_chat_model :: "LCLanguageModel \<Rightarrow> bool" where
  "is_chat_model (BaseChatModel _) = True"
| "is_chat_model (BaseLLM _) = False"

text \<open>
  \<^verbatim>\<open>LangChainLLM\<close> wraps a LangChain model in its field \<^verbatim>\<open>llm\<close>. The two
  \<^verbatim>\<open>isinstance\<close> tests of \<^verbatim>\<open>from_defaults\<close> become case distinctions: an
  \<^verbatim>\<open>LLM\<close> is a \<^verbatim>\<open>LangChainLLM\<close> or some other adapter, a predictor is an
  \<^verbatim>\<open>LLMPredictor\<close> (with its field \<^verbatim>\<open>llm\<close>) or some other predictor.
\<close>

record LangChainLLM =
  llm :: LCLanguageModel

datatype LLM = LangChain LangChainLLM | OtherLLM string

datatype BaseLLMPredictor = LLMPredictor LLM | OtherLLMPredictor string

record ServiceContext =
  llm_predictor :: BaseLLMPredictor

subsection \<open>Tools\<close>

record QueryEngineTool =
  tool_query_engine :: nat
  tool_name :: string
  tool_description :: string

datatype LCTool = LlamaIndexTool QueryEngineTool

definition as_langchain_tool :: "QueryEngineTool \<Rightarrow> LCTool" where
  "as_langchain_tool qe_tool = LlamaIndexTool qe_tool"

subsection \<open>The store: memory objects and agent executors\<close>

text \<open>
  A memory object is passed to the engine and to the agent by reference, and
  \<^verbatim>\<open>reset\<close> mutates it in place, so memories and agents are objects of a store and
  the engine holds their addresses. An address below the allocation counter is a live
  object; constructing an object takes the next address. The message list of a memory is
  \<^verbatim>\<open>memory.chat_memory.messages\<close>.
\<close>

type_synonym addr = nat

datatype memory_class = ConversationBufferMemory | OtherChatMemory

record BaseChatMemory =
  memory_class :: memory_class
  memory_key :: string
  chat_memory_messages :: "LCMessage list"
  return_messages :: bool

datatype AgentType =
    CHAT_CONVERSATIONAL_REACT_DESCRIPTION
  | CONVERSATIONAL_REACT_DESCRIPTION

record AgentExecutor =
  exec_tools :: "LCTool list"
  exec_llm :: LCLanguageModel
  exec_agent :: AgentType
  exec_memory :: addr
  exec_verbose :: bool
  exec_agent_kwargs :: "string \<rightharpoonup> string"

datatype agent_call = Run addr string | ARun addr string

record world =
  memories :: "addr \<Rightarrow> BaseChatMemory"
  next_memory :: addr
  agents :: "addr \<Rightarrow> AgentExecutor"
  next_agent :: addr
  agent_calls :: "agent_call list"

text \<open>
  Modelled from the spec: the constructors and the method of the external framework that
  the engine calls; their code is LangChain's and not among the source files.
  \<^verbatim>\<open>ConversationBufferMemory(memory_key, chat_memory, return_messages)\<close> and
  \<^verbatim>\<open>initialize_agent(tools, llm, agent, memory, verbose, agent_kwargs)\<close> build a new
  object that holds their arguments ("construct an external agent instance from tools, a
  language model, memory, and prompt configuration"), and \<^verbatim>\<open>memory.clear()\<close>
  empties the message list and nothing else ("this component only reads its message list
  and clears it on reset").
\<close>

definition new_ConversationBufferMemory ::
  "string \<Rightarrow> LCMessage list \<Rightarrow> bool \<Rightarrow> world \<Rightarrow> addr \<times> world" where
  "new_ConversationBufferMemory key lc_history ret w =
     (next_memory w,
      w\<lparr>memories := (memories w)(next_memory w :=
           \<lparr>memory_class = ConversationBufferMemory, memory_key = key,
            chat_memory_messages = lc_history, return_messages = ret\<rparr>),
        next_memory := Suc (next_memory w)\<rparr>)"

definition clear :: "addr \<Rightarrow> world \<Rightarrow> world" where
  "clear m w =
     w\<lparr>memories := (memories w)(m := (memories w m)\<lparr>chat_memory_messages := []\<rparr>)\<rparr>"

definition initialize_agent ::
  "LCTool list \<Rightarrow> LCLanguageModel \<Rightarrow> AgentType \<Rightarrow> addr \<Rightarrow> bool \<Rightarrow> (string \<rightharpoonup> string)
     \<Rightarrow> world \<Rightarrow> addr \<times> world" where
  "initialize_agent tools lc_llm agent memory verbose kwargs w =
     (next_agent w,
      w\<lparr>agents := (agents w)(next_agent w :=
           \<lparr>exec_tools = tools, exec_llm = lc_llm, exec_agent = agent,
            exec_memory = memory, exec_verbose = verbose, exec_agent_kwargs = kwargs\<rparr>),
        next_agent := Suc (next_agent w)\<rparr>)"

subsection \<open>The engine\<close>

text \<open>
  The fields \<^verbatim>\<open>_query_engine_tools\<close>, \<^verbatim>\<open>_llm\<close>, \<^verbatim>\<open>_memory\<close>,
  \<^verbatim>\<open>_system_prompt\<close> and \<^verbatim>\<open>_verbose\<close> are set before \<^verbatim>\<open>_create_agent\<close>
  runs for the first time, \<^verbatim>\<open>_agent\<close> after it: the configuration is a record and the
  engine extends it by the agent.
\<close>

record engine_config =
  self_query_engine_tools :: "QueryEngineTool list"
  self_llm :: LangChainLLM
  self_memory :: addr
  self_system_prompt :: "string option"
  self_verbose :: bool

record ReActChatEngine = engine_config +
  self_agent :: addr

datatype AgentChatResponse = AgentChatResponse string

datatype StreamingAgentChatResponse = StreamingAgentChatResponse "string list"

definition create_agent :: "'a engine_config_scheme \<Rightarrow> world \<Rightarrow> addr \<times> world" where
  "create_agent self w =
     (let tools = map as_langchain_tool (self_query_engine_tools self) in
      if is_chat_model (llm (self_llm self)) then
        initialize_agent tools (llm (self_llm self)) CHAT_CONVERSATIONAL_REACT_DESCRIPTION
          (self_memory self) (self_verbose self)
          (case self_system_prompt self of
             None \<Rightarrow> Map.empty
           | Some p \<Rightarrow> [''system_message'' \<mapsto> p]) w
      else
        initialize_agent tools (llm (self_llm self)) CONVERSATIONAL_REACT_DESCRIPTION
          (self_memory self) (self_verbose self)
          (case self_system_prompt self of
             None \<Rightarrow> Map.empty
           | Some p \<Rightarrow> [''prefix'' \<mapsto> p]) w)"

definition init ::
  "QueryEngineTool list \<Rightarrow> LangChainLLM \<Rightarrow> addr \<Rightarrow> string option \<Rightarrow> bool \<Rightarrow> world
     \<Rightarrow> ReActChatEngine \<times> world" where
  "init query_engine_tools lc memory system_prompt verbose w =
     (case create_agent
             \<lparr>self_query_engine_tools = query_engine_tools, self_llm = lc,
              self_memory = memory, self_system_prompt = system_prompt,
              self_verbose = verbose\<rparr> w of
        (a, w') \<Rightarrow>
          (\<lparr>self_query_engine_tools = query_engine_tools, self_llm = lc,
            self_memory = memory, self_system_prompt = system_prompt,
            self_verbose = verbose, self_agent = a\<rparr>, w'))"

text \<open>\<^verbatim>\<open>chat_history or []\<close>: the list when it is given and not empty.\<close>

definition or_empty :: "'a list option \<Rightarrow> 'a list" where
  "or_empty x = (case x of None \<Rightarrow> [] | Some h \<Rightarrow> (if h \<noteq> [] then h else []))"

text \<open>
  \<^verbatim>\<open>from_defaults\<close>. Its first argument stands for the call
  \<^verbatim>\<open>ServiceContext.from_defaults()\<close>, which is made when no service context is
  given: the call returns a service context or raises. The keyword arguments that are
  collected in \<^verbatim>\<open>**kwargs\<close> are deleted and play no part.
\<close>

definition from_defaults ::
  "error + ServiceContext \<Rightarrow> QueryEngineTool list \<Rightarrow> ServiceContext option \<Rightarrow> addr option
     \<Rightarrow> ChatMessage list option \<Rightarrow> bool \<Rightarrow> string option \<Rightarrow> ChatMessage list option
     \<Rightarrow> world \<Rightarrow> (error + ReActChatEngine) \<times> world" where
  "from_defaults ServiceContext_from_defaults query_engine_tools service_context memory
       chat_history verbose system_prompt prefix_messages w =
     (case (case service_context of
              Some sc \<Rightarrow> Inr sc
            | None \<Rightarrow> ServiceContext_from_defaults) of
        Inl e \<Rightarrow> (Inl e, w)
      | Inr sc \<Rightarrow>
          (case llm_predictor sc of
             OtherLLMPredictor _ \<Rightarrow>
               (Inl (ValueError ''Currently only supports LLMPredictor.''), w)
           | LLMPredictor l \<Rightarrow>
               (case l of
                  OtherLLM _ \<Rightarrow>
                    (Inl (ValueError ''Currently only supports LangChain based LLM.''), w)
                | LangChain lc \<Rightarrow>
                    if chat_history \<noteq> None \<and> memory \<noteq> None then
                      (Inl (ValueError ''Cannot specify both memory and chat_history.''), w)
                    else
                      (case (case memory of
                               None \<Rightarrow>
                                 new_ConversationBufferMemory ''chat_history''
                                   (to_lc_messages (or_empty chat_history))
                                   (is_chat_model (llm lc)) w
                             | Some m \<Rightarrow> (m, w)) of
                         (m, w1) \<Rightarrow>
                           if prefix_messages \<noteq> None then
                             (Inl (NotImplementedError
                                ''prefix_messages is not supported for ReActChatEngine.''), w1)
                           else
                             (case init query_engine_tools lc m system_prompt verbose w1 of
                                (engine, w2) \<Rightarrow> (Inr engine, w2))))))"

text \<open>
  \<^verbatim>\<open>from_query_engine\<close>. \<^verbatim>\<open>QueryEngineTool.from_defaults\<close> is a parameter. Of
  the keys its \<^verbatim>\<open>**kwargs\<close> can carry, \<^verbatim>\<open>system_prompt\<close> and
  \<^verbatim>\<open>prefix_messages\<close> are parameters of \<^verbatim>\<open>from_defaults\<close>; every other key ends
  in the \<^verbatim>\<open>**kwargs\<close> of \<^verbatim>\<open>from_defaults\<close> and is deleted there.
\<close>

record from_defaults_kwargs =
  kw_system_prompt :: "string option"
  kw_prefix_messages :: "ChatMessage list option"

definition from_query_engine ::
  "error + ServiceContext \<Rightarrow> (nat \<Rightarrow> string option \<Rightarrow> string option \<Rightarrow> QueryEngineTool)
     \<Rightarrow> nat \<Rightarrow> string option \<Rightarrow> string option \<Rightarrow> ServiceContext option \<Rightarrow> addr option
     \<Rightarrow> ChatMessage list option \<Rightarrow> bool \<Rightarrow> from_defaults_kwargs
     \<Rightarrow> world \<Rightarrow> (error + ReActChatEngine) \<times> world" where
  "from_query_engine ServiceContext_from_defaults QueryEngineTool_from_defaults
       query_engine name description service_context memory chat_history verbose kwargs w =
     (let query_engine_tool = QueryEngineTool_from_defaults query_engine name description in
      from_defaults ServiceContext_from_defaults [query_engine_tool] service_context memory
        chat_history verbose (kw_system_prompt kwargs) (kw_prefix_messages kwargs) w)"

text \<open>The property \<^verbatim>\<open>chat_history\<close>, with its assertion on the memory's class.\<close>

definition chat_history_prop :: "ReActChatEngine \<Rightarrow> world \<Rightarrow> error + ChatMessage list" where
  "chat_history_prop self w =
     (case memory_class (memories w (self_memory self)) of
        OtherChatMemory \<Rightarrow> Inl AssertionError
      | ConversationBufferMemory \<Rightarrow>
          Inr (from_lc_messages (chat_memory_messages (memories w (self_memory self)))))"

text \<open>
  \<^verbatim>\<open>chat\<close> and \<^verbatim>\<open>achat\<close>. The agent's entry points \<^verbatim>\<open>run\<close> and
  \<^verbatim>\<open>arun\<close> belong to the external framework and are parameters: given the agent's
  address and the input they return a string or raise, and may change the store. Each
  call of an entry point is recorded in \<^verbatim>\<open>agent_calls\<close> before it runs; the result of
  \<^verbatim>\<open>achat\<close> is the result of awaiting it.
\<close>

type_synonym agent_run = "addr \<Rightarrow> string \<Rightarrow> world \<Rightarrow> (error + string) \<times> world"

definition chat ::
  "agent_run \<Rightarrow> ReActChatEngine \<Rightarrow> string \<Rightarrow> ChatMessage list option \<Rightarrow> world
     \<Rightarrow> (error + AgentChatResponse) \<times> world" where
  "chat run self message chat_history w =
     (if chat_history \<noteq> None then
        (Inl (NotImplementedError
           ''chat_history argument is not supported for ReActChatEngine.''), w)
      else
        (case run (self_agent self) message
                (w\<lparr>agent_calls := agent_calls w @ [Run (self_agent self) message]\<rparr>) of
           (Inl e, w') \<Rightarrow> (Inl e, w')
         | (Inr response, w') \<Rightarrow> (Inr (AgentChatResponse response), w')))"

definition achat ::
  "agent_run \<Rightarrow> ReActChatEngine \<Rightarrow> string \<Rightarrow> ChatMessage list option \<Rightarrow> world
     \<Rightarrow> (error + AgentChatResponse) \<times> world" where
  "achat arun self message chat_history w =
     (if chat_history \<noteq> None then
        (Inl (NotImplementedError
           ''chat_history argument is not supported for ReActChatEngine.''), w)
      else
        (case arun (self_agent self) message
                (w\<lparr>agent_calls := agent_calls w @ [ARun (self_agent self) message]\<rparr>) of
           (Inl e, w') \<Rightarrow> (Inl e, w')
         | (Inr response, w') \<Rightarrow> (Inr (AgentChatResponse response), w')))"

definition stream_chat ::
  "ReActChatEngine \<Rightarrow> string \<Rightarrow> ChatMessage list option \<Rightarrow> world
     \<Rightarrow> (error + StreamingAgentChatResponse) \<times> world" where
  "stream_chat self message chat_history w =
     (Inl (NotImplementedError ''stream_chat() is not supported for ReActChatEngine.''), w)"

definition astream_chat ::
  "ReActChatEngine \<Rightarrow> string \<Rightarrow> ChatMessage list option \<Rightarrow> world
     \<Rightarrow> (error + StreamingAgentChatResponse) \<times> world" where
  "astream_chat self message chat_history w =
     (Inl (NotImplementedError ''astream_chat() is not supported for ReActChatEngine.''), w)"

definition reset :: "ReActChatEngine \<Rightarrow> world \<Rightarrow> ReActChatEngine \<times> world" where
  "reset self w =
     (case create_agent self (clear (self_memory self) w) of
        (a, w') \<Rightarrow> (self\<lparr>self_agent := a\<rparr>, w'))"

subsection \<open>Concrete stores and engines\<close>

text \<open>
  A store with one live memory of each class and one live agent, an engine over the
  buffer memory, and a service context with a LangChain chat model.
\<close>

definition example_world :: world where
  "example_world =
     \<lparr>memories = (\<lambda>_. \<lparr>memory_class = OtherChatMemory, memory_key = ''history'',
                        chat_memory_messages = [AIMessage ''summary''],
                        return_messages = False\<rparr>)
        (0 := \<lparr>memory_class = ConversationBufferMemory, memory_key = ''chat_history'',
               chat_memory_messages = [HumanMessage ''hi'', AIMessage ''hello''],
               return_messages = True\<rparr>),
      next_memory = 2,
      agents = (\<lambda>_. \<lparr>exec_tools = [], exec_llm = BaseChatModel ''chat-model'',
                       exec_agent = CHAT_CONVERSATIONAL_REACT_DESCRIPTION, exec_memory = 0,
                       exec_verbose = False, exec_agent_kwargs = Map.empty\<rparr>),
      next_agent = 1,
      agent_calls = [Run 0 ''hi'']\<rparr>"

definition example_engine :: ReActChatEngine where
  "example_engine =
     \<lparr>self_query_engine_tools = [], self_llm = \<lparr>llm = BaseChatModel ''chat-model''\<rparr>,
      self_memory = 0, self_system_prompt = None, self_verbose = False, self_agent = 0\<rparr>"

definition example_context :: ServiceContext where
  "example_context =
     \<lparr>llm_predictor = LLMPredictor (LangChain \<lparr>llm = BaseChatModel ''chat-model''\<rparr>)\<rparr>"

section \<open>Properties\<close>

subsection \<open>Auxiliary facts\<close>

lemma from_lc_to_lc_message: "from_lc_message (to_lc_message msg) = msg"
  by (cases msg; cases "role msg") simp_all

lemma from_lc_to_lc_messages: "from_lc_messages (to_lc_messages h) = h"
  unfolding from_lc_messages_def to_lc_messages_def
  by (induction h) (simp_all add: from_lc_to_lc_message del: to_lc_message.simps)

lemma or_empty_Some: "or_empty (Some h) = h"
  by (simp add: or_empty_def)

text \<open>What \<^verbatim>\<open>_create_agent\<close> does to the store, in one equation.\<close>

lemma create_agent_eq:
  "create_agent self w =
     (next_agent w,
      w\<lparr>agents := (agents w)(next_agent w :=
           \<lparr>exec_tools = map as_langchain_tool (self_query_engine_tools self),
            exec_llm = llm (self_llm self),
            exec_agent = (if is_chat_model (llm (self_llm self))
                          then CHAT_CONVERSATIONAL_REACT_DESCRIPTION
                          else CONVERSATIONAL_REACT_DESCRIPTION),
            exec_memory = self_memory self,
            exec_verbose = self_verbose self,
            exec_agent_kwargs =
              (case self_system_prompt self of
                 None \<Rightarrow> Map.empty
               | Some p \<Rightarrow>
                   [(if is_chat_model (llm (self_llm self))
                     then ''system_message'' else ''prefix'') \<mapsto> p])\<rparr>),
        next_agent := Suc (next_agent w)\<rparr>)"
  by (simp add: create_agent_def Let_def initialize_agent_def)

lemma init_memories: "memories (snd (init tools lc m sp v w)) = memories w"
  by (simp add: init_def create_agent_eq)

lemma init_self_memory: "self_memory (fst (init tools lc m sp v w)) = m"
  by (simp add: init_def create_agent_eq)

subsection \<open>Construction\<close>

text \<open>
  C1. Whenever \<^verbatim>\<open>from_defaults\<close> is given both a memory and a chat history it fails
  and leaves the store as it was, so neither a memory nor an agent nor an engine is
  constructed: whatever the other arguments, the result is an error; with a service
  context at hand (given, or returned by the default constructor) the error is a
  \<^verbatim>\<open>ValueError\<close>; with a LangChain model it is the one of the mutual-exclusion check.
  \<^verbatim>\<open>from_query_engine\<close> delegates and fails likewise.
\<close>

theorem from_defaults_rejects_memory_with_chat_history:
  "(\<exists>err. from_defaults dflt tools sc (Some m) (Some h) verbose sp pm w = (Inl err, w))
   \<and> (\<exists>msg. from_defaults dflt tools (Some ctx) (Some m) (Some h) verbose sp pm w
          = (Inl (ValueError msg), w))
   \<and> (\<exists>msg. from_defaults (Inr ctx) tools None (Some m) (Some h) verbose sp pm w
          = (Inl (ValueError msg), w))
   \<and> from_defaults dflt tools (Some (ctx\<lparr>llm_predictor := LLMPredictor (LangChain lc)\<rparr>))
        (Some m) (Some h) verbose sp pm w
       = (Inl (ValueError ''Cannot specify both memory and chat_history.''), w)
   \<and> (\<exists>err. from_query_engine dflt mk qe name description sc (Some m) (Some h) verbose kw w
          = (Inl err, w))"
  by (simp add: from_defaults_def from_query_engine_def
        split: option.splits sum.splits BaseLLMPredictor.splits LLM.splits)

text \<open>
  C7. Whenever \<^verbatim>\<open>from_defaults\<close> is given prefix messages, the empty list included,
  it fails and returns no engine; when the other arguments pass the earlier checks the
  error is the \<^verbatim>\<open>NotImplementedError\<close> of the prefix-message check.
\<close>

theorem from_defaults_rejects_prefix_messages:
  "(\<exists>err w'. from_defaults dflt tools sc memory chat_history verbose sp (Some pm) w
       = (Inl err, w'))
   \<and> (\<exists>err w'. from_defaults dflt tools sc memory chat_history verbose sp (Some []) w
       = (Inl err, w'))
   \<and> fst (from_defaults dflt tools (Some (ctx\<lparr>llm_predictor := LLMPredictor (LangChain lc)\<rparr>))
        None chat_history verbose sp (Some pm) w)
       = Inl (NotImplementedError ''prefix_messages is not supported for ReActChatEngine.'')
   \<and> fst (from_defaults dflt tools (Some (ctx\<lparr>llm_predictor := LLMPredictor (LangChain lc)\<rparr>))
        memory None verbose sp (Some pm) w)
       = Inl (NotImplementedError ''prefix_messages is not supported for ReActChatEngine.'')"
  by (simp add: from_defaults_def
        split: option.splits sum.splits BaseLLMPredictor.splits LLM.splits prod.splits)

text \<open>
  C8. When the predictor of the service context in use (given, or the default one) is not
  an \<^verbatim>\<open>LLMPredictor\<close>, or its model is not a \<^verbatim>\<open>LangChainLLM\<close>,
  \<^verbatim>\<open>from_defaults\<close> fails with a \<^verbatim>\<open>ValueError\<close> and the store is the one it was
  called in: no memory object and no agent has been created, whatever the other arguments.
\<close>

theorem from_defaults_rejects_unsupported_llm:
  "from_defaults dflt tools (Some (ctx\<lparr>llm_predictor := OtherLLMPredictor n\<rparr>))
       memory chat_history verbose sp pm w
     = (Inl (ValueError ''Currently only supports LLMPredictor.''), w)
   \<and> from_defaults (Inr (ctx\<lparr>llm_predictor := OtherLLMPredictor n\<rparr>)) tools None
       memory chat_history verbose sp pm w
     = (Inl (ValueError ''Currently only supports LLMPredictor.''), w)
   \<and> from_defaults dflt tools (Some (ctx\<lparr>llm_predictor := LLMPredictor (OtherLLM n)\<rparr>))
       memory chat_history verbose sp pm w
     = (Inl (ValueError ''Currently only supports LangChain based LLM.''), w)
   \<and> from_defaults (Inr (ctx\<lparr>llm_predictor := LLMPredictor (OtherLLM n)\<rparr>)) tools None
       memory chat_history verbose sp pm w
     = (Inl (ValueError ''Currently only supports LangChain based LLM.''), w)"
  by (simp add: from_defaults_def)

text \<open>
  C6. The agent that \<^verbatim>\<open>_create_agent\<close> builds, for a configuration and for the
  engine that the constructor returns, is of the chat-conversational type exactly when
  the language model is a chat model and of the conversational type exactly when it is
  not; its keyword arguments are empty without a system prompt, and with one they hold
  it under \<^verbatim>\<open>system_message\<close> for a chat model and under \<^verbatim>\<open>prefix\<close> otherwise,
  and hold nothing else.
\<close>

theorem create_agent_variant:
  "(case create_agent self w of
      (a, w') \<Rightarrow>
        (exec_agent (agents w' a) = CHAT_CONVERSATIONAL_REACT_DESCRIPTION)
           = is_chat_model (llm (self_llm self))
        \<and> (exec_agent (agents w' a) = CONVERSATIONAL_REACT_DESCRIPTION)
           = (\<not> is_chat_model (llm (self_llm self)))
        \<and> exec_agent_kwargs (agents w' a) =
            (case self_system_prompt self of
               None \<Rightarrow> Map.empty
             | Some p \<Rightarrow>
                 (if is_chat_model (llm (self_llm self))
                  then [''system_message'' \<mapsto> p] else [''prefix'' \<mapsto> p])))
   \<and> (case init tools lc m sp verbose w of
        (engine, w') \<Rightarrow>
          exec_agent (agents w' (self_agent engine)) =
            (if is_chat_model (llm lc) then CHAT_CONVERSATIONAL_REACT_DESCRIPTION
             else CONVERSATIONAL_REACT_DESCRIPTION)
          \<and> exec_agent_kwargs (agents w' (self_agent engine)) =
              (case sp of
                 None \<Rightarrow> Map.empty
               | Some p \<Rightarrow>
                   (if is_chat_model (llm lc)
                    then [''system_message'' \<mapsto> p] else [''prefix'' \<mapsto> p])))"
  by (simp add: init_def create_agent_eq split: option.splits)

subsection \<open>The chat methods\<close>

text \<open>
  C2. \<^verbatim>\<open>stream_chat\<close> and \<^verbatim>\<open>astream_chat\<close> raise
  \<^verbatim>\<open>NotImplementedError\<close> for every engine, message and chat history, and the store,
  with its memories, its agents and the record of the agent's calls, is unchanged.
\<close>

theorem stream_chat_not_implemented:
  "stream_chat self message chat_history w
     = (Inl (NotImplementedError ''stream_chat() is not supported for ReActChatEngine.''), w)
   \<and> astream_chat self message chat_history w
     = (Inl (NotImplementedError ''astream_chat() is not supported for ReActChatEngine.''), w)"
  by (simp add: stream_chat_def astream_chat_def)

text \<open>
  C3. \<^verbatim>\<open>chat\<close> and \<^verbatim>\<open>achat\<close> with a chat-history override that is not
  \<^verbatim>\<open>None\<close>, the empty list included, raise \<^verbatim>\<open>NotImplementedError\<close> whatever the
  agent's entry point would do, and the store is unchanged: no call of the entry point is
  recorded, and memories and agents are as before.
\<close>

theorem chat_rejects_history_override:
  "chat run self message (Some h) w
     = (Inl (NotImplementedError
          ''chat_history argument is not supported for ReActChatEngine.''), w)
   \<and> achat arun self message (Some h) w
     = (Inl (NotImplementedError
          ''chat_history argument is not supported for ReActChatEngine.''), w)
   \<and> chat run self message (Some []) w
     = (Inl (NotImplementedError
          ''chat_history argument is not supported for ReActChatEngine.''), w)
   \<and> achat arun self message (Some []) w
     = (Inl (NotImplementedError
          ''chat_history argument is not supported for ReActChatEngine.''), w)"
  by (simp add: chat_def achat_def)

subsection \<open>The chat history\<close>

text \<open>
  Every engine that \<^verbatim>\<open>from_defaults\<close> returns for a call without a memory and
  with the chat history \<open>h\<close> reads \<open>h\<close> back, whatever the other arguments.
\<close>

lemma from_defaults_engine_history:
  assumes "from_defaults dflt tools sc None (Some h) verbose sp pm w = (Inr engine, w')"
  shows "chat_history_prop engine w' = Inr h"
proof -
  from assms obtain lc where
    run: "init tools lc (next_memory w) sp verbose
            (snd (new_ConversationBufferMemory ''chat_history''
               (to_lc_messages (or_empty (Some h))) (is_chat_model (llm lc)) w))
          = (engine, w')"
    by (auto simp: from_defaults_def new_ConversationBufferMemory_def
          split: option.splits sum.splits BaseLLMPredictor.splits LLM.splits
            if_splits prod.splits)
  from run have m: "self_memory engine = next_memory w"
    using init_self_memory by (metis fst_conv)
  from run have "memories w' =
      memories (snd (new_ConversationBufferMemory ''chat_history''
        (to_lc_messages (or_empty (Some h))) (is_chat_model (llm lc)) w))"
    using init_memories by (metis snd_conv)
  then have "memories w' (next_memory w) =
      \<lparr>memory_class = ConversationBufferMemory, memory_key = ''chat_history'',
       chat_memory_messages = to_lc_messages h, return_messages = is_chat_model (llm lc)\<rparr>"
    by (simp add: new_ConversationBufferMemory_def or_empty_Some)
  then show ?thesis
    by (simp add: chat_history_prop_def m from_lc_to_lc_messages)
qed

text \<open>
  C5. For every chat history \<open>h\<close>, \<^verbatim>\<open>from_defaults\<close> called without a memory,
  without prefix messages and with a service context (given, or the default one) whose
  predictor holds a LangChain model returns an engine, for every store and every other
  argument. The engine's memory is a new \<^verbatim>\<open>ConversationBufferMemory\<close> under the key
  \<^verbatim>\<open>chat_history\<close> whose message list is the translation of \<open>h\<close>, and the property
  \<^verbatim>\<open>chat_history\<close> read on the engine in the store that the call leaves returns
  \<open>h\<close> itself: every message comes back in its place with its role and its content.
\<close>

theorem chat_history_round_trip:
  "(case from_defaults dflt tools (Some (ctx\<lparr>llm_predictor := LLMPredictor (LangChain lc)\<rparr>))
           None (Some h) verbose sp None w of
      (r, w') \<Rightarrow>
        (case r of
           Inl _ \<Rightarrow> False
         | Inr engine \<Rightarrow>
             self_memory engine = next_memory w
             \<and> memories w' (self_memory engine) =
                 \<lparr>memory_class = ConversationBufferMemory, memory_key = ''chat_history'',
                  chat_memory_messages = to_lc_messages h,
                  return_messages = is_chat_model (llm lc)\<rparr>
             \<and> chat_history_prop engine w' = Inr h))
   \<and> (case from_defaults (Inr (ctx\<lparr>llm_predictor := LLMPredictor (LangChain lc)\<rparr>)) tools None
             None (Some h) verbose sp None w of
        (r, w') \<Rightarrow>
          (case r of
             Inl _ \<Rightarrow> False
           | Inr engine \<Rightarrow>
               self_memory engine = next_memory w
               \<and> memories w' (self_memory engine) =
                   \<lparr>memory_class = ConversationBufferMemory, memory_key = ''chat_history'',
                    chat_memory_messages = to_lc_messages h,
                    return_messages = is_chat_model (llm lc)\<rparr>
               \<and> chat_history_prop engine w' = Inr h))"
  by (simp add: from_defaults_def new_ConversationBufferMemory_def init_def create_agent_eq
        chat_history_prop_def or_empty_Some from_lc_to_lc_messages)

text \<open>
  C9. When the memory object at \<open>m\<close> is not a \<^verbatim>\<open>ConversationBufferMemory\<close>, the
  engine that the constructor builds over it, and the engine that \<^verbatim>\<open>from_defaults\<close>
  returns for it, fail the assertion of the property \<^verbatim>\<open>chat_history\<close>: reading it
  gives an \<^verbatim>\<open>AssertionError\<close> and no message list. For every engine the property
  returns a list exactly when the engine's memory is a \<^verbatim>\<open>ConversationBufferMemory\<close>.
\<close>

theorem chat_history_asserts_buffer_memory:
  assumes "memory_class (memories w m) \<noteq> ConversationBufferMemory"
  shows "(case init tools lc m sp verbose w of
            (engine, w') \<Rightarrow> chat_history_prop engine w' = Inl AssertionError)
         \<and> (case from_defaults dflt tools
                   (Some (ctx\<lparr>llm_predictor := LLMPredictor (LangChain lc)\<rparr>))
                   (Some m) None verbose sp None w of
              (r, w') \<Rightarrow>
                (case r of
                   Inl _ \<Rightarrow> False
                 | Inr engine \<Rightarrow> chat_history_prop engine w' = Inl AssertionError))
         \<and> (\<exists>msgs. chat_history_prop self w2 = Inr msgs)
             = (memory_class (memories w2 (self_memory self)) = ConversationBufferMemory)"
proof -
  have c: "memory_class (memories w m) = OtherChatMemory"
    using assms by (cases "memory_class (memories w m)") simp_all
  have i: "case init tools lc m sp verbose w of
            (engine, w') \<Rightarrow> chat_history_prop engine w' = Inl AssertionError"
    by (simp add: init_def create_agent_eq chat_history_prop_def c)
  have t: "(\<exists>msgs. chat_history_prop self w2 = Inr msgs)
             = (memory_class (memories w2 (self_memory self)) = ConversationBufferMemory)"
    by (cases "memory_class (memories w2 (self_memory self))")
      (simp_all add: chat_history_prop_def)
  from i t show ?thesis
    by (simp add: from_defaults_def split: prod.splits)
qed

theorem chat_history_asserts_buffer_memory_witness:
  "memory_class (memories example_world 1) \<noteq> ConversationBufferMemory
   \<and> (case init [] \<lparr>llm = BaseLLM ''text-model''\<rparr> 1 (Some ''be brief'') True example_world of
        (engine, w') \<Rightarrow> chat_history_prop engine w' = Inl AssertionError)
   \<and> (case from_defaults (Inl (OtherException ''no default'')) []
             (Some (example_context
                \<lparr>llm_predictor := LLMPredictor (LangChain \<lparr>llm = BaseLLM ''text-model''\<rparr>)\<rparr>))
             (Some 1) None True (Some ''be brief'') None example_world of
        (r, w') \<Rightarrow>
          (case r of
             Inl _ \<Rightarrow> False
           | Inr engine \<Rightarrow> chat_history_prop engine w' = Inl AssertionError))"
proof -
  have h: "memory_class (memories example_world 1) \<noteq> ConversationBufferMemory"
    by (simp add: example_world_def)
  from h chat_history_asserts_buffer_memory [OF h, of "[]" "\<lparr>llm = BaseLLM ''text-model''\<rparr>"
      "Some ''be brief''" True "Inl (OtherException ''no default'')" example_context]
  show ?thesis
    by simp
qed

subsection \<open>Reset\<close>

text \<open>
  C4. For an engine whose agent is a live object of the store, after \<^verbatim>\<open>reset\<close> the
  message list of the engine's memory is empty, and the engine's agent is an object that
  did not exist before the call: its address is the next free one, so it differs from the
  address of the agent that was in use, whose object is left as it was. The new agent is
  built from the engine's tools, language model, memory, system prompt and verbosity.
\<close>

theorem reset_clears_memory_and_rebuilds_agent:
  assumes "self_agent self < next_agent w"
  shows "case reset self w of
           (self', w') \<Rightarrow>
             chat_memory_messages (memories w' (self_memory self')) = []
             \<and> self_agent self' \<noteq> self_agent self
             \<and> self_agent self' = next_agent w
             \<and> self_agent self' < next_agent w'
             \<and> agents w' (self_agent self) = agents w (self_agent self)
             \<and> agents w' (self_agent self') =
                 \<lparr>exec_tools = map as_langchain_tool (self_query_engine_tools self),
                  exec_llm = llm (self_llm self),
                  exec_agent = (if is_chat_model (llm (self_llm self))
                                then CHAT_CONVERSATIONAL_REACT_DESCRIPTION
                                else CONVERSATIONAL_REACT_DESCRIPTION),
                  exec_memory = self_memory self,
                  exec_verbose = self_verbose self,
                  exec_agent_kwargs =
                    (case self_system_prompt self of
                       None \<Rightarrow> Map.empty
                     | Some p \<Rightarrow>
                         [(if is_chat_model (llm (self_llm self))
                           then ''system_message'' else ''prefix'') \<mapsto> p])\<rparr>"
  using assms by (simp add: reset_def create_agent_eq clear_def)

theorem reset_clears_memory_and_rebuilds_agent_witness:
  "self_agent example_engine < next_agent example_world
   \<and> chat_memory_messages (memories example_world (self_memory example_engine))
       = [HumanMessage ''hi'', AIMessage ''hello'']
   \<and> (case reset example_engine example_world of
        (self', w') \<Rightarrow>
          chat_memory_messages (memories w' (self_memory self')) = []
          \<and> self_agent self' = 1
          \<and> self_agent self' \<noteq> self_agent example_engine
          \<and> exec_agent (agents w' (self_agent self')) = CHAT_CONVERSATIONAL_REACT_DESCRIPTION)"
proof -
  have h: "self_agent example_engine < next_agent example_world"
    by (simp add: example_engine_def example_world_def)
  from h reset_clears_memory_and_rebuilds_agent [OF h] show ?thesis
    by (simp add: example_engine_def example_world_def reset_def create_agent_eq clear_def)
qed

text \<open>
  C10. \<^verbatim>\<open>reset\<close> changes nothing of the engine but its agent: tools, language
  model, system prompt, verbosity and the address of the memory are the same. In the
  store, the memory at that address has its message list emptied and keeps its other
  fields, every other memory is untouched and none is created, no call of the agent is
  recorded, and the new agent holds the address of that same memory.
\<close>

theorem reset_frame:
  "case reset self w of
     (self', w') \<Rightarrow>
       self_query_engine_tools self' = self_query_engine_tools self
       \<and> self_llm self' = self_llm self
       \<and> self_system_prompt self' = self_system_prompt self
       \<and> self_verbose self' = self_verbose self
       \<and> self_memory self' = self_memory self
       \<and> exec_memory (agents w' (self_agent self')) = self_memory self'
       \<and> chat_memory_messages (memories w' (self_memory self')) = []
       \<and> memories w' =
           (memories w)(self_memory self :=
              (memories w (self_memory self))\<lparr>chat_memory_messages := []\<rparr>)
       \<and> next_memory w' = next_memory w
       \<and> agent_calls w' = agent_calls w"
  by (simp add: reset_def create_agent_eq clear_def)

end
